theory Spec2Isabelle
  imports Main "HOL-Library.Sublist" "HOL-Library.Multiset" "HOL-Library.DAList"
begin

section \<open>Exceptions\<close>

text \<open>
  The exception classes the code raises and catches. \<open>JiraAPIError\<close> and
  \<open>JiraConfigError\<close> are the two classes of \<^verbatim>\<open>jira_utils.py\<close>;
  \<open>RequestException\<close> is the base class of what \<^verbatim>\<open>requests\<close> raises
  (connection errors, timeouts, the \<open>HTTPError\<close> of \<^verbatim>\<open>raise_for_status\<close>);
  \<open>OtherException\<close> is any other \<^verbatim>\<open>Exception\<close>. Each carries its message.
\<close>

datatype exn =
    JiraAPIError string
  | JiraConfigError string
  | RequestException string
  | OtherException string

fun str_exn :: "exn \<Rightarrow> string" where
  "str_exn (JiraAPIError msg) = msg"
| "str_exn (JiraConfigError msg) = msg"
| "str_exn (RequestException msg) = msg"
| "str_exn (OtherException msg) = msg"

section \<open>Tag extraction (\<^verbatim>\<open>jira_utils.extract_tag_helper\<close>)\<close>

text \<open>
  \<^verbatim>\<open>pattern = f'<{tag}>(.*?)<{tag}>'\<close> puts the tag into a regular expression
  unescaped. For a tag without a metacharacter of Python's \<^verbatim>\<open>re\<close> the pattern is
  the literal marker \<^verbatim>\<open><tag>\<close>, a lazy group that matches any character
  (\<^verbatim>\<open>re.DOTALL\<close>), and the literal marker again.
\<close>

definition regex_special :: "char list" where
  "regex_special = ''.^$*+?{}[]|()'' @ [CHR 0x5C]"

definition plain_tag :: "string \<Rightarrow> bool" where
  "plain_tag tag = list_all (\<lambda>c. c \<notin> set regex_special) tag"

definition marker :: "string \<Rightarrow> string" where
  "marker tag = ''<'' @ tag @ ''>''"

text \<open>
  \<open>lazy_group m s\<close> is the backtracking match of \<^verbatim>\<open>(.*?)\<close> followed by the literal
  \<open>m\<close> at the start of \<open>s\<close>: the group is tried empty first and grows by one
  character (any character) each time the literal fails to match behind it.
\<close>

fun lazy_group :: "string \<Rightarrow> string \<Rightarrow> string option" where
  "lazy_group m [] = (if prefix m [] then Some [] else None)"
| "lazy_group m (c # cs) =
     (if prefix m (c # cs) then Some []
      else map_option ((#) c) (lazy_group m cs))"

text \<open>
  \<open>re_search_literal m s\<close> is \<^verbatim>\<open>re.search\<close> for the pattern \<open>m(.*?)m\<close> with
  \<open>m\<close> literal, giving group 1 of the match: the start positions are tried from left
  to right, and the first position where the whole pattern matches wins.
\<close>

fun re_search_literal :: "string \<Rightarrow> string \<Rightarrow> string option" where
  "re_search_literal m [] =
     (if prefix m [] then lazy_group m (drop (length m) []) else None)"
| "re_search_literal m (c # cs) =
     (if prefix m (c # cs) then
        (case lazy_group m (drop (length m) (c # cs)) of
           Some g \<Rightarrow> Some g
         | None \<Rightarrow> re_search_literal m cs)
      else re_search_literal m cs)"

text \<open>
  For any other tag the pattern is whatever \<^verbatim>\<open>re\<close> makes of it (it may not even
  compile). That part of the library is a parameter: \<open>re pattern text\<close> stands for
  \<^verbatim>\<open>match = re.search(pattern, text, flags=re.DOTALL)\<close> followed by
  \<^verbatim>\<open>match.group(1) if match else None\<close>, with \<open>Inl\<close> when either raises.
\<close>

type_synonym regex_engine = "string \<Rightarrow> string \<Rightarrow> exn + string option"

definition extract_tag_helper :: "regex_engine \<Rightarrow> string \<Rightarrow> string \<Rightarrow> string option" where
  "extract_tag_helper re text tag =
     (if plain_tag tag then re_search_literal (marker tag) text
      else (case re (marker tag @ ''(.*?)'' @ marker tag) text of
              Inl e \<Rightarrow> None
            | Inr r \<Rightarrow> r))"

text \<open>Wrapping a text in the tag convention: the same marker before and after.\<close>

definition wrap :: "string \<Rightarrow> string \<Rightarrow> string" where
  "wrap a tag = marker tag @ a @ marker tag"

section \<open>Few-shot LLM tasks (\<^verbatim>\<open>model_utils.LLMTask\<close>)\<close>

text \<open>
  The prompt template and the chain are library objects built from the task's fields;
  they are modelled by what they are built from. \<open>ChatPromptTemplate s ex\<close> is the
  template with the system message \<open>s\<close>, the few-shot examples \<open>ex\<close> and the
  human message \<^verbatim>\<open>{input}\<close>; \<open>Chain p l\<close> is \<^verbatim>\<open>p | l\<close>.
\<close>

datatype llm = OpenAI (temperature: nat)

datatype prompt = ChatPromptTemplate (system_message: string) (few_shot: "(string \<times> string) list")

datatype chain = Chain prompt llm

record LLMTask =
  system_prompt :: string
  examples :: "(string \<times> string) list"
  llm :: llm
  chain_cache :: "chain option"

text \<open>
  \<^verbatim>\<open>LLMTask.__init__\<close>: the cached chain (the field \<^verbatim>\<open>_chain\<close>, here
  \<open>chain_cache\<close>) starts as \<^verbatim>\<open>None\<close>.
\<close>

definition LLMTask_init :: "string \<Rightarrow> (string \<times> string) list \<Rightarrow> llm \<Rightarrow> LLMTask" where
  "LLMTask_init sp ex l = \<lparr>system_prompt = sp, examples = ex, llm = l, chain_cache = None\<rparr>"

definition construct_prompt :: "LLMTask \<Rightarrow> prompt" where
  "construct_prompt task = ChatPromptTemplate (system_prompt task) (examples task)"

section \<open>The environment\<close>

text \<open>
  What the code reads from outside itself: the four environment variables of
  \<^verbatim>\<open>jira_utils.py\<close> (\<^verbatim>\<open>os.environ.get\<close>, so each may be \<^verbatim>\<open>None\<close>), the HTTP
  library, the regular-expression library on patterns the embedding does not interpret,
  and the LLM behind a chain (\<^verbatim>\<open>chain.invoke({"input": text})\<close>, which returns the
  completion or raises). All of them are stubs: functions of their arguments.

  A JSON object is seen through the members the code reads. A member is missing,
  \<^verbatim>\<open>null\<close> or a string; \<^verbatim>\<open>fields\<close> is an object or missing, and a missing
  \<^verbatim>\<open>fields\<close> reads as one whose \<^verbatim>\<open>summary\<close> and \<^verbatim>\<open>description\<close> are
  missing (\<^verbatim>\<open>data.get('fields', {})\<close>). \<open>issues_member\<close> is the member
  \<^verbatim>\<open>issues\<close>, a list of objects or missing. A response whose body is not a JSON
  object has \<open>json = None\<close>: \<^verbatim>\<open>response.json()\<close> or the first \<^verbatim>\<open>.get\<close> raises.
\<close>

datatype field = Missing | Null | Str string

record issue =
  key_member :: field
  summary_member :: field
  description_member :: field

record json_object = issue +
  issues_member :: "issue list option"

datatype payload =
    NoData
  | IssueLink string string string
  | CommentBody string

text \<open>
  A request as \<^verbatim>\<open>requests.request\<close> receives it: the URL is kept as the base URL
  and the endpoint that \<^verbatim>\<open>urljoin\<close> joins; the headers and the timeout are the
  same in every request and are left out.
  \<open>error_text\<close> is the message of the \<open>HTTPError\<close> that
  \<^verbatim>\<open>raise_for_status\<close> raises for the response, when it raises.
\<close>

record http_request =
  http_method :: string
  base_url :: string
  endpoint :: string
  auth :: "string \<times> string"
  json_data :: payload


record response =
  status_code :: nat
  error_text :: string
  json :: "json_object option"

datatype http_outcome = Raises string | Responds response

record env =
  JIRA_INSTANCE_URL :: "string option"
  PROJECT_KEY :: "string option"
  JIRA_USERNAME :: "string option"
  JIRA_API_TOKEN :: "string option"
  request :: "http_request \<Rightarrow> http_outcome"
  re_engine :: regex_engine
  invoke :: "chain \<Rightarrow> string \<Rightarrow> exn + string"

text \<open>
  \<^verbatim>\<open>LLMTask.run_llm\<close>. The first run builds the chain and stores it in the task;
  the function returns the result together with the task as the call leaves it.
  An exception of the invocation is caught and gives \<^verbatim>\<open>None\<close>.
\<close>

definition invoke_caught :: "env \<Rightarrow> chain \<Rightarrow> string \<Rightarrow> string option" where
  "invoke_caught E c input_text =
     (case invoke E c input_text of Inl e \<Rightarrow> None | Inr result \<Rightarrow> Some result)"

definition run_llm :: "env \<Rightarrow> LLMTask \<Rightarrow> string \<Rightarrow> string option \<times> LLMTask" where
  "run_llm E task input_text =
     (case chain_cache task of
        None \<Rightarrow>
          (let c = Chain (construct_prompt task) (llm task)
           in (invoke_caught E c input_text, task\<lparr>chain_cache := Some c\<rparr>))
      | Some c \<Rightarrow> (invoke_caught E c input_text, task))"

section \<open>The tracker client (\<^verbatim>\<open>jira_utils.py\<close>)\<close>

text \<open>
  Python values of the JSON members: \<^verbatim>\<open>dict.get(name, default)\<close> gives the
  default for a missing member and \<^verbatim>\<open>None\<close> for \<^verbatim>\<open>null\<close>; an f-string
  formats \<^verbatim>\<open>None\<close> as the text \<^verbatim>\<open>None\<close>.
\<close>

datatype pyval = PyNone | PyStr string

fun dict_get :: "field \<Rightarrow> pyval \<Rightarrow> pyval" where
  "dict_get Missing dflt = dflt"
| "dict_get Null dflt = PyNone"
| "dict_get (Str s) dflt = PyStr s"

fun truthy :: "pyval \<Rightarrow> bool" where
  "truthy PyNone = False"
| "truthy (PyStr s) = (s \<noteq> [])"

fun format :: "pyval \<Rightarrow> string" where
  "format PyNone = ''None''"
| "format (PyStr s) = s"

text \<open>
  \<^verbatim>\<open>str.strip()\<close>: a character is a code point below 256, and the white space
  among those is 9 to 13, 28 to 32, 133 and 160.
\<close>

definition py_isspace :: "char \<Rightarrow> bool" where
  "py_isspace c =
     (let n = (of_char c :: nat)
      in (9 \<le> n \<and> n \<le> 13) \<or> (28 \<le> n \<and> n \<le> 32) \<or> n = 133 \<or> n = 160)"

definition strip :: "string \<Rightarrow> string" where
  "strip s = rev (dropWhile py_isspace (rev (dropWhile py_isspace s)))"

text \<open>\<^verbatim>\<open>_get_auth\<close>\<close>

definition get_auth :: "env \<Rightarrow> exn + (string \<times> string)" where
  "get_auth E =
     (case (JIRA_USERNAME E, JIRA_API_TOKEN E) of
        (Some u, Some t) \<Rightarrow>
          (if u = [] \<or> t = []
           then Inl (JiraConfigError ''Jira username or API token not configured'')
           else Inr (u, t))
      | _ \<Rightarrow> Inl (JiraConfigError ''Jira username or API token not configured''))"

text \<open>
  \<^verbatim>\<open>_make_request\<close>. The two configuration checks are outside the \<^verbatim>\<open>try\<close>;
  inside it, an exception of \<^verbatim>\<open>requests.request\<close> and the \<open>HTTPError\<close> of
  \<^verbatim>\<open>raise_for_status\<close> (status 400 to 599) both become \<open>JiraAPIError\<close>.
\<close>

definition raise_for_status :: "response \<Rightarrow> exn + unit" where
  "raise_for_status r =
     (if 400 \<le> status_code r \<and> status_code r < 600
      then Inl (RequestException (error_text r)) else Inr ())"

definition make_request :: "env \<Rightarrow> string \<Rightarrow> string \<Rightarrow> payload \<Rightarrow> exn + response" where
  "make_request E method ep data =
     (case JIRA_INSTANCE_URL E of
        None \<Rightarrow> Inl (JiraConfigError ''Jira instance URL not configured'')
      | Some url \<Rightarrow>
          if url = [] then Inl (JiraConfigError ''Jira instance URL not configured'')
          else
            (case get_auth E of
               Inl e \<Rightarrow> Inl e
             | Inr a \<Rightarrow>
                 (case request E \<lparr>http_method = method, base_url = url, endpoint = ep,
                                   auth = a, json_data = data\<rparr> of
                    Raises msg \<Rightarrow> Inl (JiraAPIError (''Jira API request failed: '' @ msg))
                  | Responds r \<Rightarrow>
                      (case raise_for_status r of
                         Inl e \<Rightarrow> Inl (JiraAPIError (''Jira API request failed: '' @ str_exn e))
                       | Inr _ \<Rightarrow> Inr r))))"

text \<open>
  \<^verbatim>\<open>link_jira_issue\<close> and \<^verbatim>\<open>add_jira_comment\<close>: success is status 201, and any
  exception is raised again as \<open>JiraAPIError\<close>.
\<close>

definition link_jira_issue :: "env \<Rightarrow> string \<Rightarrow> string \<Rightarrow> string \<Rightarrow> exn + bool" where
  "link_jira_issue E inward_issue_key outward_issue_key link_type =
     (case make_request E ''POST'' ''/rest/api/2/issueLink''
             (IssueLink inward_issue_key outward_issue_key link_type) of
        Inl e \<Rightarrow> Inl (JiraAPIError (''Failed to link issues: '' @ str_exn e))
      | Inr r \<Rightarrow> Inr (status_code r = 201))"

definition add_jira_comment :: "env \<Rightarrow> string \<Rightarrow> string \<Rightarrow> exn + bool" where
  "add_jira_comment E key comment =
     (case make_request E ''POST'' (''/rest/api/2/issue/'' @ key @ ''/comment'')
             (CommentBody comment) of
        Inl e \<Rightarrow> Inl (JiraAPIError (''Failed to add comment: '' @ str_exn e))
      | Inr r \<Rightarrow> Inr (status_code r = 201))"

text \<open>
  \<^verbatim>\<open>parse_jira_issue_fields\<close>. The \<open>JiraAPIError\<close> for a missing key is raised
  inside the \<^verbatim>\<open>try\<close> and so is wrapped by the handler like any other exception.
\<close>

definition missing_key_error :: exn where
  "missing_key_error =
     JiraAPIError (''Failed to parse Jira issue fields: '' @
                   ''Missing '' @ [CHR 0x27] @ ''key'' @ [CHR 0x27] @ '' field in Jira response'')"

definition parse_jira_issue_fields :: "'a issue_scheme \<Rightarrow> exn + (string \<times> string)" where
  "parse_jira_issue_fields data =
     (case dict_get (key_member data) PyNone of
        PyNone \<Rightarrow> Inl missing_key_error
      | PyStr key \<Rightarrow>
          if \<not> truthy (PyStr key) then Inl missing_key_error
          else
            (let summary = dict_get (summary_member data) (PyStr []);
                 description = dict_get (description_member data) (PyStr [])
             in Inr (key, strip (format summary @ '' '' @ format description))))"

text \<open>
  \<^verbatim>\<open>Dict[str, str]\<close> is an association list with distinct keys, in insertion order;
  \<^verbatim>\<open>tickets[key] = description\<close> is \<open>DAList.update\<close>, which replaces the value of a
  key already there and appends a new key at the end.

  \<^verbatim>\<open>get_all_tickets\<close>: the loop skips an issue whose parse raises
  \<open>JiraAPIError\<close>; \<open>get_all_tickets_try\<close> is the body of the outer \<^verbatim>\<open>try\<close>, and
  the handler turns every exception into \<^verbatim>\<open>None\<close>.
\<close>

type_synonym tickets = "(string, string) alist"

fun collect_tickets :: "issue list \<Rightarrow> tickets \<Rightarrow> exn + tickets" where
  "collect_tickets [] tickets = Inr tickets"
| "collect_tickets (i # issues) tickets =
     (case parse_jira_issue_fields i of
        Inr (key, description) \<Rightarrow> collect_tickets issues (DAList.update key description tickets)
      | Inl (JiraAPIError msg) \<Rightarrow> collect_tickets issues tickets
      | Inl e \<Rightarrow> Inl e)"

definition search_endpoint :: "env \<Rightarrow> string" where
  "search_endpoint E =
     ''/rest/api/2/search?jql='' @
     (''project='' @ (case PROJECT_KEY E of None \<Rightarrow> ''None'' | Some k \<Rightarrow> k) @
      '' AND resolution=unresolved'') @
     ''&maxResults=1000''"

definition get_all_tickets_try :: "env \<Rightarrow> exn + tickets" where
  "get_all_tickets_try E =
     (case make_request E ''GET'' (search_endpoint E) NoData of
        Inl e \<Rightarrow> Inl e
      | Inr r \<Rightarrow>
          (case json r of
             None \<Rightarrow> Inl (OtherException ''response is not a JSON object'')
           | Some data \<Rightarrow>
               collect_tickets (case issues_member data of None \<Rightarrow> [] | Some l \<Rightarrow> l)
                 DAList.empty))"

definition get_all_tickets :: "env \<Rightarrow> tickets option" where
  "get_all_tickets E =
     (case get_all_tickets_try E of Inl e \<Rightarrow> None | Inr tickets \<Rightarrow> Some tickets)"

text \<open>\<^verbatim>\<open>get_ticket_data\<close>\<close>

definition get_ticket_data :: "env \<Rightarrow> string \<Rightarrow> (string \<times> string) option" where
  "get_ticket_data E key =
     (case make_request E ''GET'' (''/rest/agile/1.0/issue/'' @ key) NoData of
        Inl e \<Rightarrow> None
      | Inr r \<Rightarrow>
          (case json r of
             None \<Rightarrow> None
           | Some data \<Rightarrow>
               (case parse_jira_issue_fields data of
                  Inl e \<Rightarrow> None
                | Inr kd \<Rightarrow> Some kd)))"

section \<open>The triage orchestrator (\<^verbatim>\<open>model_utils.JiraAgentManager\<close>)\<close>

text \<open>
  The manager's two tasks; each is \<^verbatim>\<open>None\<close> until \<^verbatim>\<open>_load_configuration\<close>
  sets it. (The fields \<^verbatim>\<open>llm\<close> and \<^verbatim>\<open>agent\<close> are not read by the triage.)
\<close>

record JiraAgentManager =
  product_model :: "LLMTask option"
  linking_model :: "LLMTask option"

text \<open>
  What a triage run does to the outside is recorded as a trace of calls: the calls of
  the tracker client, the runs of the two tasks, and the entry and return of each
  pool task and of the metadata step. \<open>CheckMatch key\<close> is the call of
  \<^verbatim>\<open>_llm_check_ticket_match\<close> made by the pool task for the ticket \<open>key\<close>.
  The result of \<^verbatim>\<open>link_jira_issue\<close> and of \<^verbatim>\<open>add_jira_comment\<close>
  (\<^verbatim>\<open>True\<close>, \<^verbatim>\<open>False\<close> or \<open>JiraAPIError\<close>) is dropped by the caller, whose
  handler only logs, so the trace has the call and nothing depends on its result.
\<close>

datatype model_name = Product | Linking

datatype event =
    GetAllTickets
  | GetTicketData string
  | HelperStart string
  | CheckMatch string
  | RunLLM model_name string
  | LinkIssue string string
  | HelperDone string
  | GenerateMetadata string
  | AddComment string string

definition linking_prompt :: "string \<Rightarrow> string \<Rightarrow> string" where
  "linking_prompt ticket1 ticket2 =
     ''<ticket1>'' @ ticket1 @ ''<ticket1><ticket2>'' @ ticket2 @ ''<ticket2>''"

definition product_prompt :: "string \<Rightarrow> string" where
  "product_prompt primary_issue_data = ''<description>'' @ primary_issue_data @ ''<description>''"

text \<open>
  \<^verbatim>\<open>_llm_check_ticket_match\<close>: the answer and the calls made. The task is read in
  the state the manager holds it in; \<open>run_llm_result_stable\<close> below shows that the
  result of a run does not depend on the runs before it, so the chain cached by an
  earlier or a concurrent run changes nothing here.
\<close>

definition llm_check_ticket_match ::
    "env \<Rightarrow> JiraAgentManager \<Rightarrow> string \<Rightarrow> string \<Rightarrow> bool \<times> event list" where
  "llm_check_ticket_match E self ticket1 ticket2 =
     (case linking_model self of
        None \<Rightarrow> (False, [])
      | Some task \<Rightarrow>
          (let prompt = linking_prompt ticket1 ticket2;
               llm_result = fst (run_llm E task prompt)
           in ((case llm_result of
                  None \<Rightarrow> False
                | Some out \<Rightarrow>
                    if out = [] then False
                    else
                      (case extract_tag_helper (re_engine E) out ''related'' of
                         None \<Rightarrow> False
                       | Some result \<Rightarrow> if result = [] then False else result = ''True'')),
               [RunLLM Linking prompt])))"

text \<open>
  \<^verbatim>\<open>_check_issue_and_link_helper\<close>: the calls of one pool task. \<^verbatim>\<open>and\<close> does
  not evaluate its right operand when \<^verbatim>\<open>key != primary_issue_key\<close> is false.
\<close>

definition check_issue_and_link_helper ::
    "env \<Rightarrow> JiraAgentManager \<Rightarrow> string \<times> string \<times> string \<times> string \<Rightarrow> event list" where
  "check_issue_and_link_helper E self args =
     (case args of (key, data, primary_issue_key, primary_issue_data) \<Rightarrow>
        HelperStart key #
        (if key \<noteq> primary_issue_key then
           (case llm_check_ticket_match E self primary_issue_data data of
              (related, calls) \<Rightarrow>
                CheckMatch key # calls @
                (if related then [LinkIssue primary_issue_key key] else []))
         else []) @
        [HelperDone key])"

text \<open>
  The thread pool. \<^verbatim>\<open>executor.map\<close> submits one call per element of \<^verbatim>\<open>args\<close>
  at once, the pool's threads run them concurrently, and leaving the \<^verbatim>\<open>with\<close>
  block is \<^verbatim>\<open>shutdown(wait=True)\<close>: it returns when every submitted call has
  returned. The calls of the tasks can therefore reach the outside in any
  interleaving that keeps each task's own order; a pool with fewer threads than tasks
  produces some of these interleavings.
\<close>

fun interleavings :: "'a list list \<Rightarrow> 'a list set" where
  "interleavings [] = {[]}"
| "interleavings (t # ts) = (\<Union>r \<in> interleavings ts. shuffles t r)"

text \<open>\<^verbatim>\<open>_find_related_tickets\<close>: the traces the link phase can leave.\<close>

definition find_related_tickets ::
    "env \<Rightarrow> JiraAgentManager \<Rightarrow> string \<Rightarrow> string \<Rightarrow> tickets \<Rightarrow> event list set" where
  "find_related_tickets E self primary_issue_key primary_issue_data issues =
     (let args = map (\<lambda>(key, data). (key, data, primary_issue_key, primary_issue_data))
                   (DAList.impl_of issues)
      in interleavings (map (check_issue_and_link_helper E self) args))"

text \<open>
  \<^verbatim>\<open>_generate_ticket_metadata\<close>. \<^verbatim>\<open>x or ''\<close> is the empty string for
  \<^verbatim>\<open>None\<close> (and for the empty string).
\<close>

definition or_empty :: "string option \<Rightarrow> string" where
  "or_empty r = (case r of None \<Rightarrow> [] | Some s \<Rightarrow> s)"

definition metadata_comment :: "regex_engine \<Rightarrow> string \<Rightarrow> string" where
  "metadata_comment re llm_result =
     (let user_stories = or_empty (extract_tag_helper re llm_result ''user_stories'');
          acceptance_criteria = or_empty (extract_tag_helper re llm_result ''acceptance_criteria'');
          priority = or_empty (extract_tag_helper re llm_result ''priority'');
          thought = or_empty (extract_tag_helper re llm_result ''thought'')
      in ''user_stories: '' @ user_stories @ [CHR 0x0A] @
         ''acceptance_criteria: '' @ acceptance_criteria @ [CHR 0x0A] @
         ''priority: '' @ priority @ [CHR 0x0A] @
         ''thought: '' @ thought)"

definition generate_ticket_metadata ::
    "env \<Rightarrow> JiraAgentManager \<Rightarrow> string \<Rightarrow> string \<Rightarrow> event list" where
  "generate_ticket_metadata E self primary_issue_key primary_issue_data =
     GenerateMetadata primary_issue_key #
     (case product_model self of
        None \<Rightarrow> []
      | Some task \<Rightarrow>
          (let prompt = product_prompt primary_issue_data;
               llm_result = fst (run_llm E task prompt)
           in RunLLM Product prompt #
              (case llm_result of
                 None \<Rightarrow> []
               | Some out \<Rightarrow>
                   if out = [] then []
                   else [AddComment primary_issue_key (metadata_comment (re_engine E) out)])))"

text \<open>
  \<^verbatim>\<open>_triage_tool\<close>: the status message and the traces the run can leave. Every
  function called in the \<^verbatim>\<open>try\<close> catches its own exceptions, so nothing reaches
  the handler that would answer \<^verbatim>\<open>Error during triage\<close>.
\<close>

definition triage_tool ::
    "env \<Rightarrow> JiraAgentManager \<Rightarrow> string \<Rightarrow> string \<times> event list set" where
  "triage_tool E self ticket_number =
     (case get_all_tickets E of
        None \<Rightarrow> (''No tickets found for triage'', {[GetAllTickets]})
      | Some all_tickets \<Rightarrow>
          if DAList.impl_of all_tickets = [] then
            (''No tickets found for triage'', {[GetAllTickets]})
          else
            (case get_ticket_data E ticket_number of
               None \<Rightarrow>
                 (''Could not retrieve data for ticket: '' @ ticket_number,
                  {[GetAllTickets, GetTicketData ticket_number]})
             | Some (primary_issue_key, primary_issue_data) \<Rightarrow>
                 (''Task complete'',
                  (\<lambda>links. [GetAllTickets, GetTicketData ticket_number] @ links @
                            generate_ticket_metadata E self primary_issue_key primary_issue_data)
                  ` find_related_tickets E self primary_issue_key primary_issue_data all_tickets)))"

subsection \<open>Reading a trace\<close>

fun is_check :: "event \<Rightarrow> bool" where
  "is_check (CheckMatch key) = True"
| "is_check _ = False"

fun is_link :: "event \<Rightarrow> bool" where
  "is_link (LinkIssue a b) = True"
| "is_link _ = False"

fun is_comment :: "event \<Rightarrow> bool" where
  "is_comment (AddComment key comment) = True"
| "is_comment _ = False"

fun is_done :: "event \<Rightarrow> bool" where
  "is_done (HelperDone key) = True"
| "is_done _ = False"

fun is_generate :: "event \<Rightarrow> bool" where
  "is_generate (GenerateMetadata key) = True"
| "is_generate _ = False"

text \<open>
  The fixed four-line comment, and the value of a tag in an LLM output with the empty
  string for a tag that is not there.
\<close>

definition four_line_comment :: "string \<Rightarrow> string \<Rightarrow> string \<Rightarrow> string \<Rightarrow> string" where
  "four_line_comment user_stories acceptance_criteria priority thought =
     ''user_stories: '' @ user_stories @ [CHR 0x0A] @
     ''acceptance_criteria: '' @ acceptance_criteria @ [CHR 0x0A] @
     ''priority: '' @ priority @ [CHR 0x0A] @
     ''thought: '' @ thought"

definition tag_value :: "regex_engine \<Rightarrow> string \<Rightarrow> string \<Rightarrow> string" where
  "tag_value re out tag = (case extract_tag_helper re out tag of None \<Rightarrow> [] | Some v \<Rightarrow> v)"

text \<open>The calls of a pool task, and the calls of the metadata step.\<close>

fun worker_event :: "event \<Rightarrow> bool" where
  "worker_event (HelperStart key) = True"
| "worker_event (CheckMatch key) = True"
| "worker_event (RunLLM Linking prompt) = True"
| "worker_event (LinkIssue a b) = True"
| "worker_event (HelperDone key) = True"
| "worker_event _ = False"

fun metadata_event :: "event \<Rightarrow> bool" where
  "metadata_event (GenerateMetadata key) = True"
| "metadata_event (RunLLM Product prompt) = True"
| "metadata_event (AddComment key comment) = True"
| "metadata_event _ = False"

text \<open>
  The candidates the classifier reports as related: the keys of the corpus other than
  the target whose text \<^verbatim>\<open>_llm_check_ticket_match\<close> answers \<^verbatim>\<open>True\<close> for.
\<close>

definition related_candidates ::
    "env \<Rightarrow> JiraAgentManager \<Rightarrow> string \<Rightarrow> string \<Rightarrow> tickets \<Rightarrow> string set" where
  "related_candidates E self primary_issue_key primary_issue_data issues =
     fst ` {(key, data) \<in> set (DAList.impl_of issues).
              key \<noteq> primary_issue_key \<and>
              fst (llm_check_ticket_match E self primary_issue_data data)}"

section \<open>A small tracker and a stubbed LLM\<close>

text \<open>
  Three open tickets. The stubbed LLM answers \<^verbatim>\<open><related>True<related>\<close> when the
  second ticket of the prompt is that of \<^verbatim>\<open>PROJ-2\<close>, \<^verbatim>\<open><related>False<related>\<close>
  for any other prompt of the linking chain, and \<^verbatim>\<open><priority>High<priority>\<close> on
  the product chain.
\<close>

definition demo_issue1 :: issue where
  "demo_issue1 = \<lparr>key_member = Str ''PROJ-1'', summary_member = Str ''Login fails'',
                   description_member = Null\<rparr>"

definition demo_issue2 :: issue where
  "demo_issue2 = \<lparr>key_member = Str ''PROJ-2'', summary_member = Str ''Login error'',
                   description_member = Str ''on submit''\<rparr>"

definition demo_issue3 :: issue where
  "demo_issue3 = \<lparr>key_member = Str ''PROJ-3'', summary_member = Str ''New logo'',
                   description_member = Missing\<rparr>"

definition demo_search_body :: json_object where
  "demo_search_body =
     \<lparr>key_member = Missing, summary_member = Missing, description_member = Missing,
      issues_member = Some [demo_issue1, demo_issue2, demo_issue3]\<rparr>"

definition demo_issue_body :: json_object where
  "demo_issue_body =
     \<lparr>key_member = Str ''PROJ-1'', summary_member = Str ''Login fails'',
      description_member = Null, issues_member = None\<rparr>"

definition demo_request :: "http_request \<Rightarrow> http_outcome" where
  "demo_request req =
     (if endpoint req = ''/rest/agile/1.0/issue/PROJ-1''
      then Responds \<lparr>status_code = 200, error_text = [], json = Some demo_issue_body\<rparr>
      else Responds \<lparr>status_code = 200, error_text = [], json = Some demo_search_body\<rparr>)"

definition demo_linking :: LLMTask where
  "demo_linking = LLMTask_init ''linking'' [] (OpenAI 0)"

definition demo_product :: LLMTask where
  "demo_product = LLMTask_init ''product'' [] (OpenAI 0)"

definition demo_invoke :: "chain \<Rightarrow> string \<Rightarrow> exn + string" where
  "demo_invoke c input_text =
     (if c = Chain (ChatPromptTemplate ''linking'' []) (OpenAI 0) then
        (if input_text = linking_prompt ''Login fails None'' ''Login error on submit''
         then Inr ''<related>True<related>''
         else Inr ''<related>False<related>'')
      else Inr ''<priority>High<priority>'')"

definition demo_env :: env where
  "demo_env =
     \<lparr>JIRA_INSTANCE_URL = Some ''https://jira.test'', PROJECT_KEY = Some ''PROJ'',
      JIRA_USERNAME = Some ''bot'', JIRA_API_TOKEN = Some ''secret'',
      request = demo_request, re_engine = (\<lambda>pattern text. Inr None),
      invoke = demo_invoke\<rparr>"

definition demo_manager :: JiraAgentManager where
  "demo_manager = \<lparr>product_model = Some demo_product, linking_model = Some demo_linking\<rparr>"

definition demo_tickets :: tickets where
  "demo_tickets =
     DAList.update ''PROJ-3'' ''New logo''
       (DAList.update ''PROJ-2'' ''Login error on submit''
          (DAList.update ''PROJ-1'' ''Login fails None'' DAList.empty))"

text \<open>The run of the triage of \<^verbatim>\<open>PROJ-1\<close> in which the pool tasks run one after another.\<close>

definition demo_trace :: "event list" where
  "demo_trace =
     [GetAllTickets, GetTicketData ''PROJ-1'',
      HelperStart ''PROJ-1'', HelperDone ''PROJ-1'',
      HelperStart ''PROJ-2'', CheckMatch ''PROJ-2'',
      RunLLM Linking (linking_prompt ''Login fails None'' ''Login error on submit''),
      LinkIssue ''PROJ-1'' ''PROJ-2'', HelperDone ''PROJ-2'',
      HelperStart ''PROJ-3'', CheckMatch ''PROJ-3'',
      RunLLM Linking (linking_prompt ''Login fails None'' ''New logo''),
      HelperDone ''PROJ-3'',
      GenerateMetadata ''PROJ-1'', RunLLM Product (product_prompt ''Login fails None''),
      AddComment ''PROJ-1''
        (''user_stories: '' @ [CHR 0x0A] @ ''acceptance_criteria: '' @ [CHR 0x0A] @
         ''priority: High'' @ [CHR 0x0A] @ ''thought: '')]"

text \<open>
  The same tracker with no open ticket, the tracker out of reach, the tracker answering
  with status 503, and the LLM failing on every call.
\<close>

definition empty_search_body :: json_object where
  "empty_search_body =
     \<lparr>key_member = Missing, summary_member = Missing, description_member = Missing,
      issues_member = Some []\<rparr>"

definition demo_env_no_tickets :: env where
  "demo_env_no_tickets =
     demo_env\<lparr>request := (\<lambda>req. Responds \<lparr>status_code = 200, error_text = [],
                                              json = Some empty_search_body\<rparr>)\<rparr>"

definition demo_env_unreachable :: env where
  "demo_env_unreachable = demo_env\<lparr>request := (\<lambda>req. Raises ''Connection refused'')\<rparr>"

definition demo_env_unavailable :: env where
  "demo_env_unavailable =
     demo_env\<lparr>request := (\<lambda>req. Responds \<lparr>status_code = 503,
                                              error_text = ''503 Server Error'',
                                              json = None\<rparr>)\<rparr>"

definition demo_env_llm_down :: env where
  "demo_env_llm_down = demo_env\<lparr>invoke := (\<lambda>c input_text. Inl (OtherException ''rate limit''))\<rparr>"

section \<open>Tag extraction: the round trip\<close>

lemma plain_tag_related: "plain_tag ''related''"
  by (simp add: plain_tag_def regex_special_def)

lemma plain_tag_metadata:
  "plain_tag ''user_stories''" "plain_tag ''acceptance_criteria''"
  "plain_tag ''priority''" "plain_tag ''thought''"
  by (simp_all add: plain_tag_def regex_special_def)

lemma lazy_group_closing: "\<exists>g. lazy_group m (a @ m) = Some g"
proof (induction a)
  case Nil
  show ?case by (cases m) simp_all
next
  case (Cons x a)
  then show ?case by auto
qed

lemma lazy_group_roundtrip:
  "(lazy_group m (a @ m) = Some a) = (\<forall>i<length a. \<not> prefix m (drop i (a @ m)))"
proof (induction a)
  case Nil
  show ?case by (cases m) simp_all
next
  case (Cons x a)
  show ?case
  proof (cases "prefix m (x # a @ m)")
    case True
    then have "\<not> (\<forall>i<length (x # a). \<not> prefix m (drop i ((x # a) @ m)))"
      by (auto intro: exI[of _ 0])
    with True show ?thesis by simp
  next
    case False
    have "(\<forall>i<length (x # a). \<not> prefix m (drop i ((x # a) @ m))) =
          (\<forall>i<length a. \<not> prefix m (drop i (a @ m)))"
      using False by (auto simp: less_Suc_eq_0_disj)
    with False Cons show ?thesis by auto
  qed
qed

lemma re_search_literal_wrapped:
  assumes "m \<noteq> []"
  shows "re_search_literal m (m @ a @ m) = lazy_group m (a @ m)"
proof -
  obtain c cs where m: "m = c # cs" using assms by (cases m) auto
  obtain g where g: "lazy_group m (a @ m) = Some g"
    using lazy_group_closing by blast
  have "re_search_literal m (c # (cs @ a @ m)) = Some g"
    using g by (simp add: m)
  then show ?thesis using g by (simp add: m)
qed

text \<open>
  C8 (as the code has it). For a tag \<open>t\<close> without regular-expression metacharacters,
  extracting \<open>t\<close> from \<open>a\<close> wrapped in the marker \<^verbatim>\<open><t>\<close> gives back \<open>a\<close> exactly
  when the marker does not occur in \<open>a\<close> followed by the closing marker at a position
  inside \<open>a\<close>: the lazy group ends at the first occurrence of the marker.
\<close>

theorem extract_wrap_roundtrip:
  assumes "plain_tag t"
  shows "(extract_tag_helper re (wrap a t) t = Some a) =
         (\<forall>i<length a. \<not> prefix (marker t) (drop i (a @ marker t)))"
proof -
  have "marker t \<noteq> []" by (simp add: marker_def)
  then have "re_search_literal (marker t) (marker t @ a @ marker t) =
             lazy_group (marker t) (a @ marker t)"
    by (rule re_search_literal_wrapped)
  then show ?thesis
    using assms by (simp add: extract_tag_helper_def wrap_def lazy_group_roundtrip)
qed

theorem extract_wrap_roundtrip_witness:
  "plain_tag ''t'' \<and>
   extract_tag_helper (re_engine demo_env) (wrap ''abc'' ''t'') ''t'' = Some ''abc''"
proof -
  have p: "plain_tag ''t''"
    by (simp add: plain_tag_def regex_special_def)
  have "\<forall>i<length ''abc''. \<not> prefix (marker ''t'') (drop i (''abc'' @ marker ''t''))"
    by (simp add: marker_def less_Suc_eq)
  then show ?thesis
    using extract_wrap_roundtrip [OF p, of "re_engine demo_env" "''abc''"] p by simp
qed

text \<open>
  C8 as stated fails: a text that contains the marker comes back cut at it.
\<close>

theorem extract_wrap_roundtrip_counterexample:
  "extract_tag_helper (re_engine demo_env) (wrap ''x<t>y'' ''t'') ''t'' \<noteq> Some ''x<t>y''"
  by (simp add: extract_tag_helper_def wrap_def marker_def plain_tag_def regex_special_def)

section \<open>Running a task\<close>

text \<open>
  The result of a run is the same whatever runs came before it: the chain a first run
  caches is the one every run would build.
\<close>

lemma run_llm_result_stable:
  "fst (run_llm E (snd (run_llm E task x)) y) = fst (run_llm E task y)"
  by (simp add: run_llm_def Let_def split: option.splits)



section \<open>The pairwise relatedness check\<close>

text \<open>
  C4. \<^verbatim>\<open>_llm_check_ticket_match\<close> answers true exactly when the linking task is
  there, the LLM call returns an output, and the \<^verbatim>\<open>related\<close> tag extracted from
  that output is the text \<^verbatim>\<open>True\<close>. In every other case (no task, an exception of
  the call, no tag, any other tag value) the answer is false; the function has no
  exceptional result.
\<close>

theorem llm_check_ticket_match_iff:
  "fst (llm_check_ticket_match E self t1 t2) =
     (\<exists>task out.
        linking_model self = Some task \<and>
        invoke E (case chain_cache task of
                    None \<Rightarrow> Chain (construct_prompt task) (llm task)
                  | Some c \<Rightarrow> c)
          (linking_prompt t1 t2) = Inr out \<and>
        extract_tag_helper (re_engine E) out ''related'' = Some ''True'')"
proof (cases "linking_model self")
  case None
  then show ?thesis by (simp add: llm_check_ticket_match_def)
next
  case (Some task)
  let ?c = "case chain_cache task of
              None \<Rightarrow> Chain (construct_prompt task) (llm task) | Some c \<Rightarrow> c"
  have run: "fst (run_llm E task (linking_prompt t1 t2)) =
             (case invoke E ?c (linking_prompt t1 t2) of Inl e \<Rightarrow> None | Inr out \<Rightarrow> Some out)"
    by (simp add: run_llm_def invoke_caught_def Let_def split: option.splits)
  have empty: "extract_tag_helper (re_engine E) [] ''related'' = None"
    by (simp add: extract_tag_helper_def plain_tag_related marker_def)
  show ?thesis
  proof (cases "invoke E ?c (linking_prompt t1 t2)")
    case (Inl e)
    then show ?thesis using Some run by (simp add: llm_check_ticket_match_def)
  next
    case (Inr out)
    then show ?thesis using Some run empty
      by (auto simp add: llm_check_ticket_match_def split: option.splits)
  qed
qed

section \<open>The open-ticket search\<close>

lemma make_request_configured:
  assumes "JIRA_INSTANCE_URL E = Some url" "url \<noteq> []" "get_auth E = Inr a"
  shows "make_request E method ep data =
     (case request E \<lparr>http_method = method, base_url = url, endpoint = ep,
                       auth = a, json_data = data\<rparr> of
        Raises msg \<Rightarrow> Inl (JiraAPIError (''Jira API request failed: '' @ msg))
      | Responds r \<Rightarrow>
          if 400 \<le> status_code r \<and> status_code r < 600
          then Inl (JiraAPIError (''Jira API request failed: '' @ error_text r))
          else Inr r)"
  using assms
  by (simp add: make_request_def raise_for_status_def split: http_outcome.splits)

text \<open>
  C10 (as the code has it). With the tracker configured, when the HTTP request raises
  (the service is out of reach) or the response has an error status (400 to 599),
  \<^verbatim>\<open>_make_request\<close> raises \<open>JiraAPIError\<close>, and \<^verbatim>\<open>get_all_tickets\<close> catches it and
  returns \<^verbatim>\<open>None\<close>. When the response carries an empty list of issues,
  \<^verbatim>\<open>get_all_tickets\<close> returns the empty mapping.
\<close>

theorem get_all_tickets_failure_and_empty:
  assumes "JIRA_INSTANCE_URL E = Some url" "url \<noteq> []" "get_auth E = Inr a"
    and "req = \<lparr>http_method = ''GET'', base_url = url, endpoint = search_endpoint E,
                auth = a, json_data = NoData\<rparr>"
  shows "(request E req = Raises msg \<longrightarrow>
            make_request E ''GET'' (search_endpoint E) NoData =
              Inl (JiraAPIError (''Jira API request failed: '' @ msg)) \<and>
            get_all_tickets E = None) \<and>
         (request E req = Responds r \<and> 400 \<le> status_code r \<and> status_code r < 600 \<longrightarrow>
            make_request E ''GET'' (search_endpoint E) NoData =
              Inl (JiraAPIError (''Jira API request failed: '' @ error_text r)) \<and>
            get_all_tickets E = None) \<and>
         (request E req = Responds r \<and> \<not> (400 \<le> status_code r \<and> status_code r < 600) \<and>
          json r = Some data \<and> issues_member data = Some [] \<longrightarrow>
            get_all_tickets E = Some DAList.empty)"
proof -
  note mr = make_request_configured [OF assms(1-3), of "''GET''" "search_endpoint E" NoData,
      folded assms(4)]
  show ?thesis
    by (auto simp add: mr get_all_tickets_def get_all_tickets_try_def)
qed

theorem get_all_tickets_failure_and_empty_witness:
  "get_all_tickets demo_env_unreachable = None \<and>
   get_all_tickets demo_env_unavailable = None \<and>
   get_all_tickets demo_env_no_tickets = Some DAList.empty"
proof -
  have a1: "get_all_tickets demo_env_unreachable = None"
    using get_all_tickets_failure_and_empty [of demo_env_unreachable "''https://jira.test''"
        "(''bot'', ''secret'')" _ "''Connection refused''"]
    by (simp add: demo_env_unreachable_def demo_env_def get_auth_def)
  have a2: "get_all_tickets demo_env_unavailable = None"
    using get_all_tickets_failure_and_empty [of demo_env_unavailable "''https://jira.test''"
        "(''bot'', ''secret'')" _ _
        "\<lparr>status_code = 503, error_text = ''503 Server Error'', json = None\<rparr>"]
    by (simp add: demo_env_unavailable_def demo_env_def get_auth_def)
  have a3: "get_all_tickets demo_env_no_tickets = Some DAList.empty"
    using get_all_tickets_failure_and_empty [of demo_env_no_tickets "''https://jira.test''"
        "(''bot'', ''secret'')" _ _
        "\<lparr>status_code = 200, error_text = [], json = Some empty_search_body\<rparr>"
        empty_search_body]
    by (simp add: demo_env_no_tickets_def demo_env_def get_auth_def empty_search_body_def)
  show ?thesis using a1 a2 a3 by simp
qed

text \<open>
  C10 as stated fails: with the tracker out of reach the search does not fail. The
  tracker error arises inside its \<^verbatim>\<open>try\<close>, and the search returns \<^verbatim>\<open>None\<close>.
\<close>

theorem get_all_tickets_counterexample:
  "get_all_tickets_try demo_env_unreachable =
     Inl (JiraAPIError ''Jira API request failed: Connection refused'') \<and>
   get_all_tickets demo_env_unreachable = None"
  by (simp add: get_all_tickets_def get_all_tickets_try_def make_request_def get_auth_def
      demo_env_unreachable_def demo_env_def)

section \<open>Triage of an empty corpus\<close>

text \<open>
  C6. When the search returns the empty mapping, the triage answers with the status
  message \<^verbatim>\<open>No tickets found for triage\<close>, and the only call it makes is the
  search: no link call and no comment call.
\<close>

theorem triage_empty_corpus:
  assumes "get_all_tickets E = Some DAList.empty"
  shows "fst (triage_tool E self t) = ''No tickets found for triage'' \<and>
         snd (triage_tool E self t) = {[GetAllTickets]} \<and>
         (\<forall>tr \<in> snd (triage_tool E self t). filter is_link tr = [] \<and> filter is_comment tr = [])"
  using assms by (simp add: triage_tool_def empty.rep_eq)

theorem triage_empty_corpus_witness:
  "get_all_tickets demo_env_no_tickets = Some DAList.empty \<and>
   fst (triage_tool demo_env_no_tickets demo_manager ''PROJ-1'') = ''No tickets found for triage'' \<and>
   snd (triage_tool demo_env_no_tickets demo_manager ''PROJ-1'') = {[GetAllTickets]}"
proof -
  have h: "get_all_tickets demo_env_no_tickets = Some DAList.empty"
    by (simp add: get_all_tickets_def get_all_tickets_try_def make_request_def get_auth_def
        raise_for_status_def demo_env_no_tickets_def demo_env_def empty_search_body_def)
  show ?thesis
    using triage_empty_corpus [OF h, of demo_manager "''PROJ-1''"] h by simp
qed

section \<open>The link phase\<close>

subsection \<open>Interleavings\<close>

lemma append_in_shuffles: "xs @ ys \<in> shuffles xs ys"
  by (induction xs) (simp_all add: Cons_in_shuffles_leftI)

lemma concat_in_interleavings: "concat ts \<in> interleavings ts"
  by (induction ts) (auto intro: append_in_shuffles)

lemma mset_interleavings: "tr \<in> interleavings ts \<Longrightarrow> mset tr = mset (concat ts)"
  by (induction ts arbitrary: tr) (auto dest: mset_shuffles)

lemma count_list_interleavings:
  assumes "tr \<in> interleavings ts"
  shows "count_list tr e = count_list (concat ts) e"
proof -
  have "count (mset tr) e = count (mset (concat ts)) e"
    using mset_interleavings[OF assms] by simp
  then show ?thesis by (simp only: count_mset)
qed

lemma filter_length_interleavings:
  assumes "tr \<in> interleavings ts"
  shows "length (filter P tr) = length (filter P (concat ts))"
proof -
  have "size (filter_mset P (mset tr)) = size (filter_mset P (mset (concat ts)))"
    using mset_interleavings[OF assms] by simp
  then show ?thesis by (simp only: mset_filter[symmetric] size_mset)
qed

lemma set_interleavings:
  assumes "tr \<in> interleavings ts"
  shows "set tr = set (concat ts)"
  using mset_interleavings[OF assms] by (metis set_mset_mset)

subsection \<open>The calls of the pool tasks and of the metadata step\<close>

lemma llm_check_calls:
  "e \<in> set (snd (llm_check_ticket_match E m t1 t2)) \<Longrightarrow> \<exists>p. e = RunLLM Linking p"
  by (auto simp: llm_check_ticket_match_def Let_def split: option.splits)


lemma helper_unfold:
  "check_issue_and_link_helper E m (c, d, pk, pd) =
     HelperStart c #
     (if c \<noteq> pk then
        CheckMatch c # snd (llm_check_ticket_match E m pd d) @
        (if fst (llm_check_ticket_match E m pd d) then [LinkIssue pk c] else [])
      else []) @
     [HelperDone c]"
  by (cases "llm_check_ticket_match E m pd d") (simp add: check_issue_and_link_helper_def)

lemma helper_count_link:
  "count_list (check_issue_and_link_helper E m (c, d, pk, pd)) (LinkIssue a k) =
     (if a = pk \<and> c = k \<and> k \<noteq> pk \<and> fst (llm_check_ticket_match E m pd d) then 1 else 0)"
proof -
  have "count_list (snd (llm_check_ticket_match E m pd d)) (LinkIssue a k) = 0"
    using llm_check_calls[of "LinkIssue a k"] by (auto simp: count_list_0_iff)
  then show ?thesis
    by (auto simp add: helper_unfold)
qed

lemma helper_checks:
  "filter is_check (check_issue_and_link_helper E m (c, d, pk, pd)) =
     (if c \<noteq> pk then [CheckMatch c] else [])"
proof -
  have "filter is_check (snd (llm_check_ticket_match E m pd d)) = []"
    using llm_check_calls by (fastforce simp: filter_empty_conv)
  then show ?thesis
    by (simp add: helper_unfold)
qed

lemma helper_all_worker_events:
  "e \<in> set (check_issue_and_link_helper E m (c, d, pk, pd)) \<Longrightarrow> worker_event e"
  using llm_check_calls[of e E m pd d]
  by (auto simp: helper_unfold split: if_splits)

lemma helper_dones:
  "filter is_done (check_issue_and_link_helper E m (c, d, pk, pd)) = [HelperDone c]"
proof -
  have "filter is_done (snd (llm_check_ticket_match E m pd d)) = []"
    using llm_check_calls by (fastforce simp: filter_empty_conv)
  then show ?thesis
    by (simp add: helper_unfold)
qed

lemma workers_count_link:
  assumes "distinct (map fst kvs)"
  shows "count_list (concat (map (check_issue_and_link_helper E m)
            (map (\<lambda>(c, d). (c, d, pk, pd)) kvs))) (LinkIssue a k) =
         (if a = pk \<and> k \<in> fst ` {(c, d) \<in> set kvs. c \<noteq> pk \<and> fst (llm_check_ticket_match E m pd d)}
          then 1 else 0)"
  using assms
proof (induction kvs)
  case Nil
  show ?case by simp
next
  case (Cons kv kvs)
  obtain c d where kv: "kv = (c, d)" by (cases kv)
  let ?S = "\<lambda>l. fst ` {(c, d) \<in> set l. c \<noteq> pk \<and> fst (llm_check_ticket_match E m pd d)}"
  let ?W = "\<lambda>l. concat (map (check_issue_and_link_helper E m) (map (\<lambda>(c, d). (c, d, pk, pd)) l))"
  have notin: "c \<notin> fst ` set kvs" using Cons.prems by (simp add: kv)
  have IH: "count_list (?W kvs) (LinkIssue a k) = (if a = pk \<and> k \<in> ?S kvs then 1 else 0)"
    using Cons by simp
  have split: "count_list (?W (kv # kvs)) (LinkIssue a k) =
      (if a = pk \<and> c = k \<and> k \<noteq> pk \<and> fst (llm_check_ticket_match E m pd d) then 1 else 0) +
      count_list (?W kvs) (LinkIssue a k)"
    by (simp add: kv helper_count_link)
  have S: "?S (kv # kvs) = (if c \<noteq> pk \<and> fst (llm_check_ticket_match E m pd d) then {c} else {}) \<union> ?S kvs"
    by (auto simp: kv image_iff)
  have "c \<notin> ?S kvs" using notin by force
  then show ?case
    unfolding split IH S by auto
qed

lemma workers_checks:
  "length (filter is_check (concat (map (check_issue_and_link_helper E m)
            (map (\<lambda>(c, d). (c, d, pk, pd)) kvs)))) =
   length (filter (\<lambda>kv. fst kv \<noteq> pk) kvs)"
  by (induction kvs) (auto simp: helper_checks)

lemma distinct_filter_neq_length:
  assumes "distinct ks"
  shows "length (filter (\<lambda>x. x \<noteq> k) ks) = length ks - (if k \<in> set ks then 1 else 0)"
  using assms
proof (induction ks)
  case Nil
  show ?case by simp
next
  case (Cons x ks)
  have "k \<in> set ks \<Longrightarrow> 0 < length ks" by (cases ks) auto
  with Cons show ?case by auto
qed


lemma workers_dones:
  "length (filter is_done (concat (map (check_issue_and_link_helper E m)
            (map (\<lambda>(c, d). (c, d, pk, pd)) kvs)))) = length kvs"
  by (induction kvs) (auto simp: helper_dones)

lemma workers_all_worker_events:
  assumes "e \<in> set (concat (map (check_issue_and_link_helper E m)
            (map (\<lambda>(c, d). (c, d, pk, pd)) kvs)))"
  shows "worker_event e"
  using assms by (auto dest: helper_all_worker_events)

lemma workers_no_self_check:
  "CheckMatch pk \<notin> set (concat (map (check_issue_and_link_helper E m)
            (map (\<lambda>(c, d). (c, d, pk, pd)) kvs)))"
proof
  assume "CheckMatch pk \<in> set (concat (map (check_issue_and_link_helper E m)
            (map (\<lambda>(c, d). (c, d, pk, pd)) kvs)))"
  then obtain c d where "(c, d) \<in> set kvs"
    and "CheckMatch pk \<in> set (check_issue_and_link_helper E m (c, d, pk, pd))"
    by auto
  then have "CheckMatch pk \<in> set (filter is_check (check_issue_and_link_helper E m (c, d, pk, pd)))"
    by simp
  then show False
    by (auto simp add: helper_checks split: if_splits)
qed

lemma metadata_all_metadata_events:
  "e \<in> set (generate_ticket_metadata E m pk pd) \<Longrightarrow> metadata_event e"
  by (auto simp: generate_ticket_metadata_def Let_def split: option.splits if_splits)

lemma worker_not_metadata: "worker_event e \<Longrightarrow> \<not> metadata_event e"
  by (cases e rule: worker_event.cases) simp_all

lemma metadata_generate:
  "filter is_generate (generate_ticket_metadata E m pk pd) = [GenerateMetadata pk]"
  by (simp add: generate_ticket_metadata_def Let_def split: option.splits)

lemma metadata_hd: "hd (generate_ticket_metadata E m pk pd) = GenerateMetadata pk"
  by (simp add: generate_ticket_metadata_def)

lemma metadata_comments:
  "filter is_comment (generate_ticket_metadata E m pk pd) =
     (case product_model m of
        None \<Rightarrow> []
      | Some task \<Rightarrow>
          (case fst (run_llm E task (product_prompt pd)) of
             None \<Rightarrow> []
           | Some out \<Rightarrow>
               if out = [] then []
               else [AddComment pk (metadata_comment (re_engine E) out)]))"
  by (simp add: generate_ticket_metadata_def Let_def split: option.splits)

subsection \<open>The traces of a triage that reaches the link phase\<close>

lemma triage_link_phase:
  assumes "get_all_tickets E = Some issues" "DAList.impl_of issues \<noteq> []"
    and "get_ticket_data E t = Some (pk, pd)"
  shows "triage_tool E m t =
     (''Task complete'',
      (\<lambda>links. [GetAllTickets, GetTicketData t] @ links @ generate_ticket_metadata E m pk pd)
      ` find_related_tickets E m pk pd issues)"
  using assms by (simp add: triage_tool_def)

lemma triage_trace_split:
  assumes "get_all_tickets E = Some issues" "DAList.impl_of issues \<noteq> []"
    and "get_ticket_data E t = Some (pk, pd)"
    and "tr \<in> snd (triage_tool E m t)"
  obtains links where
    "links \<in> interleavings (map (check_issue_and_link_helper E m)
        (map (\<lambda>(c, d). (c, d, pk, pd)) (DAList.impl_of issues)))"
    "tr = [GetAllTickets, GetTicketData t] @ links @ generate_ticket_metadata E m pk pd"
  using assms(4) unfolding triage_link_phase [OF assms(1-3)]
  by (auto simp: find_related_tickets_def Let_def)

lemma triage_sequential_run:
  assumes "get_all_tickets E = Some issues" "DAList.impl_of issues \<noteq> []"
    and "get_ticket_data E t = Some (pk, pd)"
  shows "[GetAllTickets, GetTicketData t] @
         concat (map (check_issue_and_link_helper E m)
           (map (\<lambda>(c, d). (c, d, pk, pd)) (DAList.impl_of issues))) @
         generate_ticket_metadata E m pk pd \<in> snd (triage_tool E m t)"
  unfolding triage_link_phase [OF assms]
  by (auto simp: find_related_tickets_def Let_def intro!: imageI concat_in_interleavings)

lemma triage_count_link:
  assumes "get_all_tickets E = Some issues" "DAList.impl_of issues \<noteq> []"
    and "get_ticket_data E t = Some (pk, pd)"
    and "tr \<in> snd (triage_tool E m t)"
  shows "count_list tr (LinkIssue a k) =
         (if a = pk \<and> k \<in> related_candidates E m pk pd issues then 1 else 0)"
proof -
  obtain links where
    links: "links \<in> interleavings (map (check_issue_and_link_helper E m)
        (map (\<lambda>(c, d). (c, d, pk, pd)) (DAList.impl_of issues)))"
    and tr: "tr = [GetAllTickets, GetTicketData t] @ links @ generate_ticket_metadata E m pk pd"
    using triage_trace_split [OF assms] by blast
  have meta: "count_list (generate_ticket_metadata E m pk pd) (LinkIssue a k) = 0"
    using metadata_all_metadata_events [of "LinkIssue a k"] by (auto simp: count_list_0_iff)
  have "count_list links (LinkIssue a k) =
        (if a = pk \<and> k \<in> related_candidates E m pk pd issues then 1 else 0)"
    unfolding count_list_interleavings [OF links] related_candidates_def
    by (rule workers_count_link) simp
  then show ?thesis by (simp add: tr meta)
qed

subsection \<open>The small tracker, evaluated\<close>

lemma demo_get_all: "get_all_tickets demo_env = Some demo_tickets"
  by (simp add: get_all_tickets_def get_all_tickets_try_def make_request_def get_auth_def
      demo_env_def demo_request_def raise_for_status_def demo_search_body_def
      demo_issue1_def demo_issue2_def demo_issue3_def parse_jira_issue_fields_def
      strip_def py_isspace_def demo_tickets_def search_endpoint_def)

lemma demo_impl: "DAList.impl_of demo_tickets =
   [(''PROJ-1'', ''Login fails None''), (''PROJ-2'', ''Login error on submit''),
    (''PROJ-3'', ''New logo'')]"
  by (simp add: demo_tickets_def update.rep_eq empty.rep_eq)

lemma demo_nonempty: "DAList.impl_of demo_tickets \<noteq> []"
  by (simp add: demo_impl)

lemma demo_get_ticket:
  "get_ticket_data demo_env ''PROJ-1'' = Some (''PROJ-1'', ''Login fails None'')"
  by (simp add: get_ticket_data_def make_request_def get_auth_def
      demo_env_def demo_request_def raise_for_status_def demo_issue_body_def
      parse_jira_issue_fields_def strip_def py_isspace_def)

lemma demo_check2:
  "llm_check_ticket_match demo_env demo_manager ''Login fails None'' ''Login error on submit'' =
     (True, [RunLLM Linking (linking_prompt ''Login fails None'' ''Login error on submit'')])"
  by (simp add: llm_check_ticket_match_def demo_manager_def demo_linking_def LLMTask_init_def
      run_llm_def invoke_caught_def construct_prompt_def Let_def demo_env_def demo_invoke_def
      extract_tag_helper_def plain_tag_related marker_def)

lemma demo_check3:
  "llm_check_ticket_match demo_env demo_manager ''Login fails None'' ''New logo'' =
     (False, [RunLLM Linking (linking_prompt ''Login fails None'' ''New logo'')])"
  by (simp add: llm_check_ticket_match_def demo_manager_def demo_linking_def LLMTask_init_def
      run_llm_def invoke_caught_def construct_prompt_def Let_def demo_env_def demo_invoke_def
      extract_tag_helper_def plain_tag_related marker_def linking_prompt_def)

lemma demo_product_run:
  "fst (run_llm demo_env demo_product (product_prompt ''Login fails None'')) =
     Some ''<priority>High<priority>''"
  by (simp add: demo_product_def LLMTask_init_def run_llm_def invoke_caught_def
      construct_prompt_def Let_def demo_env_def demo_invoke_def)

lemma priority_only_comment:
  "metadata_comment re ''<priority>High<priority>'' =
     ''user_stories: '' @ [CHR 0x0A] @ ''acceptance_criteria: '' @ [CHR 0x0A] @
     ''priority: High'' @ [CHR 0x0A] @ ''thought: ''"
  by (simp add: metadata_comment_def or_empty_def extract_tag_helper_def plain_tag_metadata
      marker_def)

lemma demo_metadata:
  "generate_ticket_metadata demo_env demo_manager ''PROJ-1'' ''Login fails None'' =
     [GenerateMetadata ''PROJ-1'', RunLLM Product (product_prompt ''Login fails None''),
      AddComment ''PROJ-1''
        (''user_stories: '' @ [CHR 0x0A] @ ''acceptance_criteria: '' @ [CHR 0x0A] @
         ''priority: High'' @ [CHR 0x0A] @ ''thought: '')]"
  by (simp add: generate_ticket_metadata_def demo_manager_def demo_product_run
      priority_only_comment)

lemma demo_run: "demo_trace \<in> snd (triage_tool demo_env demo_manager ''PROJ-1'')"
proof -
  have "demo_trace =
      [GetAllTickets, GetTicketData ''PROJ-1''] @
      concat (map (check_issue_and_link_helper demo_env demo_manager)
        (map (\<lambda>(c, d). (c, d, ''PROJ-1'', ''Login fails None'')) (DAList.impl_of demo_tickets))) @
      generate_ticket_metadata demo_env demo_manager ''PROJ-1'' ''Login fails None''"
    by (simp add: demo_trace_def demo_impl helper_unfold demo_check2 demo_check3 demo_metadata)
  then show ?thesis
    using triage_sequential_run [OF demo_get_all demo_nonempty demo_get_ticket, of demo_manager]
    by simp
qed

lemma demo_related:
  "related_candidates demo_env demo_manager ''PROJ-1'' ''Login fails None'' demo_tickets =
     {''PROJ-2''}"
proof -
  have "{(key, data) \<in> set (DAList.impl_of demo_tickets).
          key \<noteq> ''PROJ-1'' \<and>
          fst (llm_check_ticket_match demo_env demo_manager ''Login fails None'' data)} =
        {(''PROJ-2'', ''Login error on submit'')}"
    by (auto simp add: demo_impl demo_check2 demo_check3)
  then show ?thesis by (simp add: related_candidates_def)
qed

lemma make_request_invoke_update:
  "make_request (E\<lparr>invoke := f\<rparr>) method ep data = make_request E method ep data"
  by (simp add: make_request_def get_auth_def split: option.splits)

lemma get_all_tickets_invoke_update:
  "get_all_tickets (E\<lparr>invoke := f\<rparr>) = get_all_tickets E"
  by (simp add: get_all_tickets_def get_all_tickets_try_def make_request_invoke_update
      search_endpoint_def)

lemma get_ticket_data_invoke_update:
  "get_ticket_data (E\<lparr>invoke := f\<rparr>) k = get_ticket_data E k"
  by (simp add: get_ticket_data_def make_request_invoke_update)

lemma demo_llm_down_get_all: "get_all_tickets demo_env_llm_down = Some demo_tickets"
  by (simp add: demo_env_llm_down_def get_all_tickets_invoke_update demo_get_all)

lemma demo_llm_down_get_ticket:
  "get_ticket_data demo_env_llm_down ''PROJ-1'' = Some (''PROJ-1'', ''Login fails None'')"
  by (simp add: demo_env_llm_down_def get_ticket_data_invoke_update demo_get_ticket)

lemma demo_llm_down_product_run:
  "fst (run_llm demo_env_llm_down demo_product (product_prompt ''Login fails None'')) = None"
  by (simp add: demo_product_def LLMTask_init_def run_llm_def invoke_caught_def Let_def
      demo_env_llm_down_def)

section \<open>Links\<close>

text \<open>
  C1. In a triage that reaches the link phase, whatever the interleaving of the pool
  tasks, \<^verbatim>\<open>link_jira_issue\<close> is called exactly once with the target and \<open>k\<close> for
  every candidate \<open>k\<close> that the classifier reports as related, and never with any other
  pair of keys.
\<close>

theorem triage_links_exactly_related:
  assumes "get_all_tickets E = Some issues" "DAList.impl_of issues \<noteq> []"
    and "get_ticket_data E t = Some (pk, pd)"
    and "tr \<in> snd (triage_tool E self t)"
  shows "count_list tr (LinkIssue a k) =
         (if a = pk \<and> k \<in> related_candidates E self pk pd issues then 1 else 0)"
  using assms by (rule triage_count_link)

theorem triage_links_exactly_related_witness:
  "get_all_tickets demo_env = Some demo_tickets \<and>
   DAList.impl_of demo_tickets \<noteq> [] \<and>
   get_ticket_data demo_env ''PROJ-1'' = Some (''PROJ-1'', ''Login fails None'') \<and>
   demo_trace \<in> snd (triage_tool demo_env demo_manager ''PROJ-1'') \<and>
   count_list demo_trace (LinkIssue ''PROJ-1'' ''PROJ-2'') = 1 \<and>
   count_list demo_trace (LinkIssue ''PROJ-1'' ''PROJ-3'') = 0"
  using triage_links_exactly_related [OF demo_get_all demo_nonempty demo_get_ticket demo_run,
      of "''PROJ-1''" "''PROJ-2''"]
    triage_links_exactly_related [OF demo_get_all demo_nonempty demo_get_ticket demo_run,
      of "''PROJ-1''" "''PROJ-3''"]
    demo_get_all demo_nonempty demo_get_ticket demo_run
  by (simp add: demo_related)

text \<open>
  C2. No run of the triage, whatever it fetches, calls \<^verbatim>\<open>link_jira_issue\<close> with the
  same key on both sides.
\<close>

theorem triage_never_links_to_itself:
  assumes "tr \<in> snd (triage_tool E self t)"
  shows "LinkIssue k k \<notin> set tr"
proof (cases "get_all_tickets E")
  case None
  then show ?thesis using assms by (auto simp: triage_tool_def)
next
  case (Some issues)
  show ?thesis
  proof (cases "DAList.impl_of issues = []")
    case True
    then show ?thesis using assms Some by (auto simp: triage_tool_def)
  next
    case nonempty: False
    show ?thesis
    proof (cases "get_ticket_data E t")
      case None
      then show ?thesis using assms Some nonempty by (auto simp: triage_tool_def)
    next
      case (Some target)
      obtain pk pd where target: "target = (pk, pd)" by (cases target)
      have "count_list tr (LinkIssue k k) =
            (if k = pk \<and> k \<in> related_candidates E self pk pd issues then 1 else 0)"
        using triage_count_link [OF \<open>get_all_tickets E = Some issues\<close> nonempty
            Some [unfolded target] assms] .
      moreover have "pk \<notin> related_candidates E self pk pd issues"
        by (auto simp: related_candidates_def)
      ultimately have "count_list tr (LinkIssue k k) = 0" by auto
      then show ?thesis by (simp add: count_list_0_iff)
    qed
  qed
qed

theorem triage_never_links_to_itself_witness:
  "demo_trace \<in> snd (triage_tool demo_env demo_manager ''PROJ-1'') \<and>
   LinkIssue ''PROJ-1'' ''PROJ-1'' \<notin> set demo_trace"
  using triage_never_links_to_itself [OF demo_run, of "''PROJ-1''"] demo_run by simp

section \<open>Relatedness checks\<close>

text \<open>
  C3. In a triage that reaches the link phase with a corpus of \<open>N\<close> tickets, the
  classifier \<^verbatim>\<open>_llm_check_ticket_match\<close> is called \<open>N\<close> times, less one when the
  target's key is in the corpus, and never for the target's own key. (The pool runs
  \<open>N\<close> tasks; the task of the target's own key returns without calling the classifier.)
\<close>

theorem triage_check_count:
  assumes "get_all_tickets E = Some issues" "DAList.impl_of issues \<noteq> []"
    and "get_ticket_data E t = Some (pk, pd)"
    and "tr \<in> snd (triage_tool E self t)"
  shows "length (filter is_check tr) =
           length (DAList.impl_of issues) -
           (if pk \<in> fst ` set (DAList.impl_of issues) then 1 else 0) \<and>
         CheckMatch pk \<notin> set tr"
proof -
  let ?kvs = "DAList.impl_of issues"
  obtain links where
    links: "links \<in> interleavings (map (check_issue_and_link_helper E self)
        (map (\<lambda>(c, d). (c, d, pk, pd)) ?kvs))"
    and tr: "tr = [GetAllTickets, GetTicketData t] @ links @ generate_ticket_metadata E self pk pd"
    using triage_trace_split [OF assms] by blast
  have meta: "filter is_check (generate_ticket_metadata E self pk pd) = []"
    using metadata_all_metadata_events [of _ E self pk pd]
    by (fastforce simp: filter_empty_conv elim: is_check.elims)
  have "length (filter is_check links) = length (filter (\<lambda>kv. fst kv \<noteq> pk) ?kvs)"
    unfolding filter_length_interleavings [OF links] by (rule workers_checks)
  also have "\<dots> = length (filter (\<lambda>x. x \<noteq> pk) (map fst ?kvs))"
    by (simp add: filter_map comp_def)
  also have "\<dots> = length (map fst ?kvs) - (if pk \<in> set (map fst ?kvs) then 1 else 0)"
    by (rule distinct_filter_neq_length) simp
  finally have n: "length (filter is_check links) =
      length ?kvs - (if pk \<in> fst ` set ?kvs then 1 else 0)"
    by simp
  have "CheckMatch pk \<notin> set links"
    unfolding set_interleavings [OF links] by (rule workers_no_self_check)
  moreover have "CheckMatch pk \<notin> set (generate_ticket_metadata E self pk pd)"
    using metadata_all_metadata_events [of "CheckMatch pk" E self pk pd] by auto
  ultimately show ?thesis by (simp add: tr meta n)
qed

theorem triage_check_count_witness:
  "get_all_tickets demo_env = Some demo_tickets \<and>
   DAList.impl_of demo_tickets \<noteq> [] \<and>
   get_ticket_data demo_env ''PROJ-1'' = Some (''PROJ-1'', ''Login fails None'') \<and>
   demo_trace \<in> snd (triage_tool demo_env demo_manager ''PROJ-1'') \<and>
   length (filter is_check demo_trace) = 2 \<and>
   CheckMatch ''PROJ-1'' \<notin> set demo_trace"
  using triage_check_count [OF demo_get_all demo_nonempty demo_get_ticket demo_run]
    demo_get_all demo_nonempty demo_get_ticket demo_run
  by (simp add: demo_impl)

section \<open>The metadata step\<close>

text \<open>
  C7. In a triage that reaches the link phase, \<^verbatim>\<open>_generate_ticket_metadata\<close> is
  entered exactly once, and every run splits in two: first the part with the calls of
  the pool tasks, in which all \<open>N\<close> tasks return and no call of the metadata step
  occurs, then the metadata step, which starts with its entry and has no call of a
  pool task.
\<close>

theorem triage_metadata_after_join:
  assumes "get_all_tickets E = Some issues" "DAList.impl_of issues \<noteq> []"
    and "get_ticket_data E t = Some (pk, pd)"
    and "tr \<in> snd (triage_tool E self t)"
  shows "filter is_generate tr = [GenerateMetadata pk] \<and>
         (\<exists>before after.
            tr = before @ after \<and>
            (\<forall>e \<in> set before. \<not> metadata_event e) \<and>
            length (filter is_done before) = length (DAList.impl_of issues) \<and>
            after = generate_ticket_metadata E self pk pd \<and>
            hd after = GenerateMetadata pk \<and>
            (\<forall>e \<in> set after. metadata_event e \<and> \<not> worker_event e))"
proof -
  let ?kvs = "DAList.impl_of issues"
  let ?meta = "generate_ticket_metadata E self pk pd"
  obtain links where
    links: "links \<in> interleavings (map (check_issue_and_link_helper E self)
        (map (\<lambda>(c, d). (c, d, pk, pd)) ?kvs))"
    and tr: "tr = [GetAllTickets, GetTicketData t] @ links @ ?meta"
    using triage_trace_split [OF assms] by blast
  have w: "\<forall>e \<in> set links. worker_event e"
    unfolding set_interleavings [OF links] using workers_all_worker_events by blast
  then have gen: "filter is_generate links = []"
    by (fastforce simp: filter_empty_conv elim: is_generate.elims)
  have dones: "length (filter is_done links) = length ?kvs"
    unfolding filter_length_interleavings [OF links] by (rule workers_dones)
  have first: "filter is_generate tr = [GenerateMetadata pk]"
    by (simp add: tr gen metadata_generate)
  let ?before = "[GetAllTickets, GetTicketData t] @ links"
  have b1: "\<forall>e \<in> set ?before. \<not> metadata_event e"
    using w worker_not_metadata by auto
  have b2: "length (filter is_done ?before) = length ?kvs"
    using dones by simp
  have a1: "\<forall>e \<in> set ?meta. metadata_event e \<and> \<not> worker_event e"
    using metadata_all_metadata_events worker_not_metadata by blast
  have "tr = ?before @ ?meta" by (simp add: tr)
  with b1 b2 a1 metadata_hd [of E self pk pd] first show ?thesis by blast
qed

theorem triage_metadata_after_join_witness:
  "get_all_tickets demo_env = Some demo_tickets \<and>
   DAList.impl_of demo_tickets \<noteq> [] \<and>
   get_ticket_data demo_env ''PROJ-1'' = Some (''PROJ-1'', ''Login fails None'') \<and>
   demo_trace \<in> snd (triage_tool demo_env demo_manager ''PROJ-1'') \<and>
   filter is_generate demo_trace = [GenerateMetadata ''PROJ-1'']"
  using triage_metadata_after_join [OF demo_get_all demo_nonempty demo_get_ticket demo_run]
    demo_get_all demo_nonempty demo_get_ticket demo_run
  by simp

lemma metadata_comment_four_lines:
  "metadata_comment re out =
     four_line_comment (tag_value re out ''user_stories'')
       (tag_value re out ''acceptance_criteria'') (tag_value re out ''priority'')
       (tag_value re out ''thought'')"
  by (simp add: metadata_comment_def four_line_comment_def tag_value_def or_empty_def)

lemma priority_only_tags:
  "tag_value re ''<priority>High<priority>'' ''user_stories'' = []"
  "tag_value re ''<priority>High<priority>'' ''acceptance_criteria'' = []"
  "tag_value re ''<priority>High<priority>'' ''priority'' = ''High''"
  "tag_value re ''<priority>High<priority>'' ''thought'' = []"
  by (simp_all add: tag_value_def extract_tag_helper_def plain_tag_metadata marker_def)

lemma triage_comments:
  assumes "get_all_tickets E = Some issues" "DAList.impl_of issues \<noteq> []"
    and "get_ticket_data E t = Some (pk, pd)"
    and "tr \<in> snd (triage_tool E m t)"
  shows "filter is_comment tr = filter is_comment (generate_ticket_metadata E m pk pd)"
proof -
  obtain links where
    links: "links \<in> interleavings (map (check_issue_and_link_helper E m)
        (map (\<lambda>(c, d). (c, d, pk, pd)) (DAList.impl_of issues)))"
    and tr: "tr = [GetAllTickets, GetTicketData t] @ links @ generate_ticket_metadata E m pk pd"
    using triage_trace_split [OF assms] by blast
  have "\<forall>e \<in> set links. worker_event e"
    unfolding set_interleavings [OF links] using workers_all_worker_events by blast
  then have "filter is_comment links = []"
    by (fastforce simp: filter_empty_conv elim: is_comment.elims)
  then show ?thesis by (simp add: tr)
qed

text \<open>
  C5. In a triage that reaches the link phase with the product task in place, the run
  completes with \<^verbatim>\<open>Task complete\<close> whatever the LLM does. With a non-empty LLM
  output exactly one comment is posted, on the target, in the four-line format, each
  of the four tags with the empty string when it is not in the output; with no output
  (or an empty one) no comment is posted. For the output
  \<^verbatim>\<open><priority>High<priority>\<close> the comment has \<^verbatim>\<open>priority: High\<close> and the three
  other fields empty.
\<close>

theorem triage_metadata_comment:
  assumes "get_all_tickets E = Some issues" "DAList.impl_of issues \<noteq> []"
    and "get_ticket_data E t = Some (pk, pd)"
    and "product_model self = Some task"
    and "tr \<in> snd (triage_tool E self t)"
  shows "fst (triage_tool E self t) = ''Task complete'' \<and>
         filter is_comment tr =
           (case fst (run_llm E task (product_prompt pd)) of
              None \<Rightarrow> []
            | Some out \<Rightarrow>
                if out = [] then []
                else [AddComment pk
                        (four_line_comment (tag_value (re_engine E) out ''user_stories'')
                           (tag_value (re_engine E) out ''acceptance_criteria'')
                           (tag_value (re_engine E) out ''priority'')
                           (tag_value (re_engine E) out ''thought''))]) \<and>
         (fst (run_llm E task (product_prompt pd)) = Some ''<priority>High<priority>'' \<longrightarrow>
            filter is_comment tr = [AddComment pk (four_line_comment [] [] ''High'' [])])"
proof -
  have status: "fst (triage_tool E self t) = ''Task complete''"
    by (simp add: triage_link_phase [OF assms(1-3)])
  have comments: "filter is_comment tr =
           (case fst (run_llm E task (product_prompt pd)) of
              None \<Rightarrow> []
            | Some out \<Rightarrow>
                if out = [] then []
                else [AddComment pk
                        (four_line_comment (tag_value (re_engine E) out ''user_stories'')
                           (tag_value (re_engine E) out ''acceptance_criteria'')
                           (tag_value (re_engine E) out ''priority'')
                           (tag_value (re_engine E) out ''thought''))])"
    unfolding triage_comments [OF assms(1-3,5)] metadata_comments
    by (simp add: assms(4) metadata_comment_four_lines split: option.splits)
  have "filter is_comment tr = [AddComment pk (four_line_comment [] [] ''High'' [])]"
    if "fst (run_llm E task (product_prompt pd)) = Some ''<priority>High<priority>''"
    unfolding comments that by (simp add: priority_only_tags)
  with status comments show ?thesis by blast
qed

theorem triage_metadata_comment_witness:
  "get_all_tickets demo_env = Some demo_tickets \<and>
   DAList.impl_of demo_tickets \<noteq> [] \<and>
   get_ticket_data demo_env ''PROJ-1'' = Some (''PROJ-1'', ''Login fails None'') \<and>
   product_model demo_manager = Some demo_product \<and>
   demo_trace \<in> snd (triage_tool demo_env demo_manager ''PROJ-1'') \<and>
   fst (run_llm demo_env demo_product (product_prompt ''Login fails None'')) =
     Some ''<priority>High<priority>'' \<and>
   fst (triage_tool demo_env demo_manager ''PROJ-1'') = ''Task complete'' \<and>
   filter is_comment demo_trace =
     [AddComment ''PROJ-1'' (four_line_comment [] [] ''High'' [])] \<and>
   fst (run_llm demo_env_llm_down demo_product (product_prompt ''Login fails None'')) = None \<and>
   fst (triage_tool demo_env_llm_down demo_manager ''PROJ-1'') = ''Task complete''"
proof -
  have pm: "product_model demo_manager = Some demo_product"
    by (simp add: demo_manager_def)
  have down: "fst (triage_tool demo_env_llm_down demo_manager ''PROJ-1'') = ''Task complete''"
    using triage_metadata_comment [OF demo_llm_down_get_all demo_nonempty
        demo_llm_down_get_ticket pm
        triage_sequential_run [OF demo_llm_down_get_all demo_nonempty demo_llm_down_get_ticket]]
    by simp
  show ?thesis
    using triage_metadata_comment [OF demo_get_all demo_nonempty demo_get_ticket pm demo_run]
      demo_get_all demo_nonempty demo_get_ticket pm demo_run demo_product_run
      demo_llm_down_product_run down
    by (simp add: priority_only_tags)
qed

end
